theory Spec2Isabelle
  imports Complex_Main
begin

section \<open>Data model of the thread page\<close>

text \<open>
  The page component \<open>HomeThread\<close> shows one conversation (a thread) and keeps its
  list of responses up to date. The GraphQL documents of \<open>home.ts\<close> fix the shape of
  the data: the fragment \<open>CommonError\<close>, the fragment \<open>CommonResponse\<close> and the
  queries \<open>Thread\<close> and \<open>ThreadResponse\<close>.
\<close>

text \<open>
  Modelled from the spec: the status enumeration of a thread response. Its
  declaration (the GraphQL schema) is not among the sources; the spec lists
  \<open>pending, generating, finished, failed, stopped\<close>.
\<close>

datatype status = Pending | Generating | Finished | Failed | Stopped

text \<open>
  Modelled from the spec: the status enumeration of a recommended-questions task
  (declared in the schema, not among the sources):
  \<open>not_started, generating, finished, failed\<close>.
\<close>

datatype recommended_status = RNotStarted | RGenerating | RFinished | RFailed

text \<open>Fragment \<open>CommonError\<close>: \<open>code, shortMessage, message, stacktrace\<close>.\<close>

record common_error =
  error_code :: string
  error_shortMessage :: string
  error_message :: string
  error_stacktrace :: "string list"

text \<open>The selection \<open>detail { sql description steps {...} view {...} }\<close>.\<close>

record detail_step =
  step_summary :: string
  step_sql :: string
  step_cteName :: string

record detail_view =
  view_id :: int
  view_name :: string
  view_statement :: string
  view_displayName :: string

record detail =
  detail_sql :: string
  detail_description :: string
  detail_steps :: "detail_step list"
  detail_view :: "detail_view option"

text \<open>
  Fragment \<open>CommonResponse\<close> together with the \<open>error\<close> selection of the queries
  \<open>Thread\<close>, \<open>ThreadResponse\<close> and \<open>CreateThreadResponse\<close>. The fields \<open>detail\<close>
  and \<open>error\<close> are nullable.
\<close>

record response =
  response_id :: int
  response_question :: string
  response_status :: status
  response_detail :: "detail option"
  response_error :: "common_error option"

text \<open>Query \<open>Thread\<close>: \<open>thread { id sql responses {...} }\<close>.\<close>

record thread =
  thread_id :: int
  thread_sql :: string
  thread_responses :: "response list"

text \<open>Fragment \<open>CommonRecommendedQuestionsTask\<close>.\<close>

record recommended_question =
  rq_question :: string
  rq_category :: string
  rq_sql :: string

record recommended_task =
  task_status :: recommended_status
  task_questions :: "recommended_question list"
  task_error :: "common_error option"

section \<open>The two cache updaters\<close>

text \<open>
  \<open>useCreateThreadResponseMutation.onCompleted\<close> passes to \<open>updateThreadQuery\<close> the
  function
  \<^verbatim>\<open>prev => ({...prev, thread: {...prev.thread,
            responses: [...prev.thread.responses, nextResponse]}})\<close>.
  The query data \<open>prev\<close> has the single field \<open>thread\<close>, so the updater is a function
  on threads.
\<close>

definition appendResponse :: "response \<Rightarrow> thread \<Rightarrow> thread" where
  "appendResponse nextResponse prev =
     prev\<lparr>thread_responses := thread_responses prev @ [nextResponse]\<rparr>"

text \<open>
  \<open>useThreadResponseLazyQuery.onCompleted\<close> passes
  \<^verbatim>\<open>prev => ({...prev, thread: {...prev.thread,
            responses: prev.thread.responses.map((response) =>
              response.id === nextResponse.id ? nextResponse : response)}})\<close>.
\<close>

definition mergeResponse :: "response \<Rightarrow> thread \<Rightarrow> thread" where
  "mergeResponse nextResponse prev =
     prev\<lparr>thread_responses :=
       map (\<lambda>response. if response_id response = response_id nextResponse
                        then nextResponse else response)
           (thread_responses prev)\<rparr>"

text \<open>
  A conversation's history of synchroniser operations: a creation that succeeded
  (its \<open>onCompleted\<close> ran with the returned response), a creation that failed (the
  mutation rejected, \<open>onCompleted\<close> never ran), and a merge of a polled update.
\<close>

datatype sync_op = CreateOk response | CreateFailed | Merge response

fun applyOp :: "sync_op \<Rightarrow> thread \<Rightarrow> thread" where
  "applyOp (CreateOk r) t = appendResponse r t"
| "applyOp CreateFailed t = t"
| "applyOp (Merge r) t = mergeResponse r t"

fun applyOps :: "sync_op list \<Rightarrow> thread \<Rightarrow> thread" where
  "applyOps [] t = t"
| "applyOps (x # xs) t = applyOps xs (applyOp x t)"

fun successfulCreates :: "sync_op list \<Rightarrow> nat" where
  "successfulCreates [] = 0"
| "successfulCreates (CreateOk r # xs) = Suc (successfulCreates xs)"
| "successfulCreates (x # xs) = successfulCreates xs"

section \<open>The active conversation identity\<close>

text \<open>
  \<^verbatim>\<open>const threadId = useMemo(() => Number(params?.id) || null, [params]);\<close>

  \<open>params?.id\<close> is the route parameter of the page: a string, or \<open>undefined\<close>
  when there is none. A JavaScript number is \<open>NaN\<close>, an infinity or a finite value;
  the two zeros \<open>+0\<close> and \<open>-0\<close> are both \<open>Num 0\<close> (both are falsy, and
  \<open>===\<close> does not tell them apart).
\<close>

datatype route_param = Undefined | Str string

datatype js_number = NaN | Num rat | PosInfinity | NegInfinity

text \<open>
  \<open>Number(v)\<close>: \<open>undefined\<close> converts to \<open>NaN\<close>; a string is converted by the
  language's string-to-number conversion, a built-in taken here as the parameter
  \<open>stringToNumber\<close> (it yields \<open>NaN\<close> exactly for the strings that are not numeric
  literals).
\<close>

definition Number_js :: "(string \<Rightarrow> js_number) \<Rightarrow> route_param \<Rightarrow> js_number" where
  "Number_js stringToNumber v =
     (case v of Undefined \<Rightarrow> NaN | Str s \<Rightarrow> stringToNumber s)"

text \<open>\<open>n || null\<close>: the falsy numbers are \<open>NaN\<close> and zero.\<close>

definition orNull :: "js_number \<Rightarrow> js_number option" where
  "orNull n = (if n = NaN \<or> n = Num 0 then None else Some n)"

definition threadIdOf :: "(string \<Rightarrow> js_number) \<Rightarrow> route_param \<Rightarrow> js_number option" where
  "threadIdOf stringToNumber param = orNull (Number_js stringToNumber param)"

text \<open>\<open>useThreadQuery({ ..., skip: threadId === null, ... })\<close>.\<close>

definition threadQuerySkip :: "'a option \<Rightarrow> bool" where
  "threadQuerySkip threadId = (threadId = None)"

section \<open>State of the page and of its hooks\<close>

text \<open>
  Modelled from the spec: \<open>getIsFinished\<close> and \<open>isRecommendedFinished\<close> of
  \<open>hooks/useAskPrompt\<close>, which the page imports and which are not among the sources.
  The spec gives the response poller and the recommendation poller the test
  \<open>status \<in> {finished, failed}\<close>. Both are called with \<open>x?.status\<close>, which is
  \<open>undefined\<close> (here \<open>None\<close>) when nothing has been fetched. The functions of the
  page below take the two helpers as parameters named as in the source; these two
  constants are the instances the spec describes.
\<close>

definition specGetIsFinished :: "status option \<Rightarrow> bool" where
  "specGetIsFinished st = (st = Some Finished \<or> st = Some Failed)"

definition specIsRecommendedFinished :: "recommended_status option \<Rightarrow> bool" where
  "specIsRecommendedFinished st = (st = Some RFinished \<or> st = Some RFailed)"

text \<open>
  Every call the page makes to a collaborator, in the order made. The last two are
  not calls of the page: they are the fetches a running poll timer of a lazy query
  issues by itself (\<open>pollInterval: 1000\<close>).
\<close>

datatype call =
    AskStopPolling
  | ThreadResponseStopPolling
  | RecommendationStopPolling
  | PromptClose
  | FetchThreadResponse int
  | FetchThreadRecommendationQuestions int
  | GenerateThreadRecommendationQuestions int
  | CreateThreadResponse int
  | StoreThreadQuestions "string list"
  | ConsoleError
  | PollThreadResponse int
  | PollThreadRecommendationQuestions int

datatype js_error = TypeError | ApolloError

text \<open>
  The values a render of \<open>HomeThread\<close> reads, and the state of the hooks it drives:
  \<^item> \<open>threadId\<close>, \<open>thread\<close> (\<open>data?.thread || null\<close>), \<open>threadResponse\<close>
    (\<open>threadResponseResult.data?.threadResponse || null\<close>), \<open>recommendedQuestions\<close>
    and \<open>showRecommendedQuestions\<close> are the constants of the component;
  \<open>threadId\<close> holds the integer ids the queries accept (\<open>$threadId: Int!\<close>);
  \<^item> \<open>askPolling\<close> tells whether the asking-task poller of \<open>useAskPrompt\<close> runs;
  \<^item> \<open>responsePolling\<close> and \<open>recommendationPolling\<close> hold the variables the poll
    timer of each lazy query fetches with, \<open>None\<close> when the timer is stopped;
  \<^item> \<open>responseVariables\<close> holds the variables the thread-response query was last
    executed with, \<open>None\<close> before its first execution;
  \<^item> \<open>promptOpen\<close> is the state behind \<open>$prompt.current\<close>;
  \<^item> \<open>threadQuestions\<close> is what \<open>onStoreThreadQuestions\<close> stored;
  \<^item> \<open>calls\<close> is the trace of calls, oldest first.
\<close>

record hstate =
  threadId :: "int option"
  thread :: "thread option"
  threadResponse :: "response option"
  recommendedQuestions :: "recommended_task option"
  showRecommendedQuestions :: bool
  askPolling :: bool
  responsePolling :: "int option"
  responseVariables :: "int option"
  recommendationPolling :: "int option"
  promptOpen :: bool
  threadQuestions :: "string list"
  calls :: "call list"

definition called :: "call \<Rightarrow> hstate \<Rightarrow> hstate" where
  "called c s = s\<lparr>calls := calls s @ [c]\<rparr>"

subsection \<open>The collaborators the page calls\<close>

text \<open>
  What each call does to the hook it belongs to: \<open>stopPolling\<close> stops the timer
  (and is harmless on a stopped one), executing a lazy query that has a
  \<open>pollInterval\<close> fetches and (re)starts its timer with the given variables.
  Executing the thread-response query with another \<open>responseId\<close> than the last
  time leaves it without data until the result arrives, so \<open>threadResponse\<close> is
  \<open>null\<close> meanwhile; executing it again with the same \<open>responseId\<close> keeps the
  data it has.
\<close>

definition askPrompt_onStopPolling :: "hstate \<Rightarrow> hstate" where
  "askPrompt_onStopPolling s = called AskStopPolling (s\<lparr>askPolling := False\<rparr>)"

definition threadResponseResult_stopPolling :: "hstate \<Rightarrow> hstate" where
  "threadResponseResult_stopPolling s =
     called ThreadResponseStopPolling (s\<lparr>responsePolling := None\<rparr>)"

definition threadRecommendationQuestionsResult_stopPolling :: "hstate \<Rightarrow> hstate" where
  "threadRecommendationQuestionsResult_stopPolling s =
     called RecommendationStopPolling (s\<lparr>recommendationPolling := None\<rparr>)"

definition prompt_close :: "hstate \<Rightarrow> hstate" where
  "prompt_close s = called PromptClose (s\<lparr>promptOpen := False\<rparr>)"

definition fetchThreadResponse :: "int \<Rightarrow> hstate \<Rightarrow> hstate" where
  "fetchThreadResponse responseId s =
     called (FetchThreadResponse responseId)
       (s\<lparr>responsePolling := Some responseId,
          responseVariables := Some responseId,
          threadResponse :=
            (if responseVariables s = Some responseId then threadResponse s else None)\<rparr>)"

definition fetchThreadRecommendationQuestions :: "int \<Rightarrow> hstate \<Rightarrow> hstate" where
  "fetchThreadRecommendationQuestions tid s =
     called (FetchThreadRecommendationQuestions tid) (s\<lparr>recommendationPolling := Some tid\<rparr>)"

definition generateThreadRecommendationQuestions :: "int \<Rightarrow> hstate \<Rightarrow> hstate" where
  "generateThreadRecommendationQuestions tid s =
     called (GenerateThreadRecommendationQuestions tid) s"

definition setShowRecommendedQuestions :: "bool \<Rightarrow> hstate \<Rightarrow> hstate" where
  "setShowRecommendedQuestions b s = s\<lparr>showRecommendedQuestions := b\<rparr>"

definition onStoreThreadQuestions :: "string list \<Rightarrow> hstate \<Rightarrow> hstate" where
  "onStoreThreadQuestions questions s =
     called (StoreThreadQuestions questions) (s\<lparr>threadQuestions := questions\<rparr>)"

definition console_error :: "hstate \<Rightarrow> hstate" where
  "console_error s = called ConsoleError s"

text \<open>
  \<open>updateThreadQuery(f)\<close> rewrites the cached result of the thread query. The two
  updaters read \<open>prev.thread.responses\<close>, which throws a \<open>TypeError\<close> when the query
  holds no thread.
\<close>

definition updateThreadQuery :: "(thread \<Rightarrow> thread) \<Rightarrow> hstate \<Rightarrow> js_error + hstate" where
  "updateThreadQuery f s =
     (case thread s of
        None \<Rightarrow> Inl TypeError
      | Some prev \<Rightarrow> Inr (s\<lparr>thread := Some (f prev)\<rparr>))"

subsection \<open>The handlers of the two lazy-query and mutation hooks\<close>

text \<open>
  \<open>useCreateThreadResponseMutation({ onCompleted(next) {...} })\<close>: the returned
  response is appended to the cached thread.
\<close>

definition createThreadResponse_onCompleted :: "response \<Rightarrow> hstate \<Rightarrow> js_error + hstate" where
  "createThreadResponse_onCompleted nextResponse s =
     updateThreadQuery (appendResponse nextResponse) s"

text \<open>
  \<open>useThreadResponseLazyQuery({ pollInterval: 1000, onCompleted(next) {...} })\<close>:
  the fetched response replaces the entries of the cached thread that have its id.
  The handler receives the response only; it reads neither \<open>threadId\<close> nor the
  variables the fetch was issued with.
\<close>

definition threadResponse_onCompleted :: "response \<Rightarrow> hstate \<Rightarrow> js_error + hstate" where
  "threadResponse_onCompleted nextResponse s =
     updateThreadQuery (mergeResponse nextResponse) s"

subsection \<open>The four effects\<close>

text \<open>
  An effect runs after a render in which one of its dependencies changed, and reads
  the constants of that render: each effect below takes the value it depends on
  and the state of the hooks it acts on.

  \<^verbatim>\<open>// stop all requests when change thread
  useEffect(() => {
    askPrompt.onStopPolling();
    threadResponseResult.stopPolling();
    threadRecommendationQuestionsResult.stopPolling();
    $prompt.current?.close();
    if (threadId !== null) {
      fetchThreadRecommendationQuestions({ variables: { threadId } });
      setShowRecommendedQuestions(true);
    }
  }, [threadId]);\<close>
\<close>

definition threadIdEffect :: "int option \<Rightarrow> hstate \<Rightarrow> hstate" where
  "threadIdEffect tid s =
     (let s1 = askPrompt_onStopPolling s;
          s2 = threadResponseResult_stopPolling s1;
          s3 = threadRecommendationQuestionsResult_stopPolling s2;
          s4 = prompt_close s3
      in case tid of
           None \<Rightarrow> s4
         | Some i \<Rightarrow>
             setShowRecommendedQuestions True (fetchThreadRecommendationQuestions i s4))"

text \<open>
  \<^verbatim>\<open>useEffect(() => {
    const unfinishedRespose = (thread?.responses || []).find(
      (response) => !getIsFinished(response.status));
    if (unfinishedRespose) {
      fetchThreadResponse({ variables: { responseId: unfinishedRespose.id } });
    }
    // store thread questions for instant recommended questions
    const questions = thread?.responses.flatMap((res) => res.question || []);
    if (questions) askPrompt.onStoreThreadQuestions(questions);
  }, [thread]);\<close>

  \<open>res.question || []\<close> drops an empty question: \<open>flatMap\<close> flattens the empty
  array away and keeps a string as it is.
\<close>

definition unfinishedResponse :: "(status option \<Rightarrow> bool) \<Rightarrow> thread option \<Rightarrow> response option" where
  "unfinishedResponse getIsFinished thr =
     find (\<lambda>response. \<not> getIsFinished (Some (response_status response)))
       (case thr of None \<Rightarrow> [] | Some t \<Rightarrow> thread_responses t)"

definition threadEffect :: "(status option \<Rightarrow> bool) \<Rightarrow> thread option \<Rightarrow> hstate \<Rightarrow> hstate" where
  "threadEffect getIsFinished thr s =
     (let s1 = (case unfinishedResponse getIsFinished thr of
                  None \<Rightarrow> s
                | Some unfinished \<Rightarrow> fetchThreadResponse (response_id unfinished) s)
      in case thr of
           None \<Rightarrow> s1
         | Some t \<Rightarrow>
             onStoreThreadQuestions
               (filter (\<lambda>q. q \<noteq> []) (map response_question (thread_responses t))) s1)"

text \<open>
  \<^verbatim>\<open>const isFinished = useMemo(
    () => getIsFinished(threadResponse?.status), [threadResponse]);
  useEffect(() => {
    if (isFinished) {
      threadResponseResult.stopPolling();
      setShowRecommendedQuestions(true);
    }
  }, [isFinished]);\<close>
\<close>

definition isFinished :: "(status option \<Rightarrow> bool) \<Rightarrow> hstate \<Rightarrow> bool" where
  "isFinished getIsFinished s =
     getIsFinished (map_option response_status (threadResponse s))"

definition isFinishedEffect :: "bool \<Rightarrow> hstate \<Rightarrow> hstate" where
  "isFinishedEffect finished s =
     (if finished
      then setShowRecommendedQuestions True (threadResponseResult_stopPolling s)
      else s)"

text \<open>
  \<^verbatim>\<open>useEffect(() => {
    if (isRecommendedFinished(recommendedQuestions?.status)) {
      threadRecommendationQuestionsResult.stopPolling();
    }
  }, [recommendedQuestions]);\<close>
\<close>

definition recommendedQuestionsEffect ::
  "(recommended_status option \<Rightarrow> bool) \<Rightarrow> recommended_task option \<Rightarrow> hstate \<Rightarrow> hstate" where
  "recommendedQuestionsEffect isRecommendedFinished rq s =
     (if isRecommendedFinished (map_option task_status rq)
      then threadRecommendationQuestionsResult_stopPolling s
      else s)"

subsection \<open>What happens to the page\<close>

text \<open>
  The page reacts to what reaches it: the route changes, a query delivers a result,
  a poll timer fires, the user selects a candidate. Each reaction is the handler of
  the source followed by the effects whose dependency changed, in the order the
  component declares them. A dependency that is an object (\<open>thread\<close>,
  \<open>recommendedQuestions\<close>) changes with every result delivered to the page; the
  dependencies \<open>threadId\<close> and \<open>isFinished\<close> are compared by value.

  The first render runs every effect once.
\<close>

definition initialState :: "int option \<Rightarrow> hstate" where
  "initialState tid =
     \<lparr>threadId = tid, thread = None, threadResponse = None,
      recommendedQuestions = None, showRecommendedQuestions = False,
      askPolling = False, responsePolling = None, responseVariables = None,
      recommendationPolling = None, promptOpen = False, threadQuestions = [],
      calls = []\<rparr>"

definition mount ::
  "(status option \<Rightarrow> bool) \<Rightarrow> (recommended_status option \<Rightarrow> bool) \<Rightarrow> int option \<Rightarrow> hstate" where
  "mount getIsFinished isRecommendedFinished tid =
     (let s0 = initialState tid;
          s1 = threadIdEffect tid s0;
          s2 = threadEffect getIsFinished None s1;
          s3 = isFinishedEffect (isFinished getIsFinished s0) s2
      in recommendedQuestionsEffect isRecommendedFinished None s3)"

text \<open>
  The route parameter changes \<open>threadId\<close>. The thread query is re-keyed (or skipped),
  so it holds no data until its result is delivered.
\<close>

definition navigate :: "(status option \<Rightarrow> bool) \<Rightarrow> int option \<Rightarrow> hstate \<Rightarrow> hstate" where
  "navigate getIsFinished newId s =
     (if newId = threadId s then s
      else
        let s1 = s\<lparr>threadId := newId, thread := None\<rparr>;
            s2 = threadIdEffect newId s1
        in if thread s = None then s2 else threadEffect getIsFinished None s2)"

text \<open>The thread query delivers a thread; a skipped query delivers nothing.\<close>

definition threadLoaded :: "(status option \<Rightarrow> bool) \<Rightarrow> thread \<Rightarrow> hstate \<Rightarrow> hstate" where
  "threadLoaded getIsFinished t s =
     (if threadQuerySkip (threadId s) then s
      else threadEffect getIsFinished (Some t) (s\<lparr>thread := Some t\<rparr>))"

text \<open>
  A result of the thread-response query arrives, from the first fetch or from a
  poll, also from a fetch that was under way when the timer was stopped:
  \<open>onCompleted\<close> runs (a \<open>TypeError\<close> thrown there is not caught by the page and
  leaves the cache as it was) and the result becomes \<open>threadResponseResult.data\<close>.
  The page renders again. The effect on \<open>thread\<close> runs if the merge changed the
  cached thread (a rewrite that changes nothing is not delivered to the page), and
  the effect on \<open>isFinished\<close> runs if that constant, computed from the arrived
  result, differs from the one of the previous render.
\<close>

definition threadResponseArrived :: "(status option \<Rightarrow> bool) \<Rightarrow> response \<Rightarrow> hstate \<Rightarrow> hstate" where
  "threadResponseArrived getIsFinished next s =
     (let before = isFinished getIsFinished s;
          s1 = (case threadResponse_onCompleted next s of
                  Inl e \<Rightarrow> s\<lparr>threadResponse := Some next\<rparr>
                | Inr s' \<Rightarrow>
                    if thread s' = thread s then s'\<lparr>threadResponse := Some next\<rparr>
                    else threadEffect getIsFinished (thread s')
                           (s'\<lparr>threadResponse := Some next\<rparr>));
          now = getIsFinished (Some (response_status next))
      in if now \<noteq> before then isFinishedEffect now s1 else s1)"

text \<open>A result of the recommendation query arrives.\<close>

definition recommendationArrived ::
  "(recommended_status option \<Rightarrow> bool) \<Rightarrow> recommended_task \<Rightarrow> hstate \<Rightarrow> hstate" where
  "recommendationArrived isRecommendedFinished task s =
     recommendedQuestionsEffect isRecommendedFinished (Some task)
       (s\<lparr>recommendedQuestions := Some task\<rparr>)"

text \<open>A poll timer fires: a running timer fetches with its variables, a stopped one does nothing.\<close>

definition responsePollTick :: "hstate \<Rightarrow> hstate" where
  "responsePollTick s =
     (case responsePolling s of
        None \<Rightarrow> s
      | Some responseId \<Rightarrow> called (PollThreadResponse responseId) s)"

definition recommendationPollTick :: "hstate \<Rightarrow> hstate" where
  "recommendationPollTick s =
     (case recommendationPolling s of
        None \<Rightarrow> s
      | Some tid \<Rightarrow> called (PollThreadRecommendationQuestions tid) s)"

text \<open>
  \<^verbatim>\<open>const onSelect = async (payload) => {
    try {
      askPrompt.onStopPolling();
      const response = await createThreadResponse({
        variables: { threadId: thread.id, data: payload } });
      await generateThreadRecommendationQuestions({
        variables: { threadId: thread.id } });
      setShowRecommendedQuestions(false);
      await fetchThreadResponse({
        variables: { responseId: response.data.createThreadResponse.id } });
      fetchThreadRecommendationQuestions({ variables: { threadId: thread.id } });
    } catch (error) {
      console.error(error);
    }
  };\<close>

  The handler is suspended at each \<open>await\<close>, and whatever reaches the page
  meanwhile (a result, a context switch) is handled before it goes on. So the
  handler is one function for each stretch between two suspensions. A stretch
  either ends the handler in its \<open>catch\<close> block or leaves it suspended, holding the
  constants the rest of the handler needs: \<open>thread.id\<close>, read from the \<open>thread\<close> of
  the render the handler was created in when the first stretch begins, and later
  the created \<open>response\<close>.
\<close>

datatype 'a awaited = Caught hstate | Await 'a hstate

fun awaitedState :: "'a awaited \<Rightarrow> hstate" where
  "awaitedState (Caught s) = s"
| "awaitedState (Await x s) = s"

text \<open>
  Up to \<open>await createThreadResponse(...)\<close>. Reading \<open>thread.id\<close> throws a
  \<open>TypeError\<close> when there is no thread.
\<close>

definition onSelect_start :: "'p \<Rightarrow> hstate \<Rightarrow> int awaited" where
  "onSelect_start payload s =
     (let s1 = askPrompt_onStopPolling s
      in case thread s of
           None \<Rightarrow> Caught (console_error s1)
         | Some t \<Rightarrow> Await (thread_id t) (called (CreateThreadResponse (thread_id t)) s1))"

text \<open>
  The creation settles with \<open>created\<close>, the response it returned or the error it
  rejected with. A successful creation runs \<open>onCompleted\<close> before the \<open>await\<close>
  returns, on the thread that is cached now; an error thrown there rejects the
  mutation. The handler then calls the generate trigger and is suspended again;
  the rewritten thread re-renders the page and runs the effect on \<open>thread\<close>.
\<close>

definition onSelect_created ::
  "(status option \<Rightarrow> bool) \<Rightarrow> int \<Rightarrow> js_error + response \<Rightarrow> hstate \<Rightarrow> response awaited" where
  "onSelect_created getIsFinished tid created s =
     (case created of
        Inl e \<Rightarrow> Caught (console_error s)
      | Inr response \<Rightarrow>
          (case createThreadResponse_onCompleted response s of
             Inl e \<Rightarrow> Caught (console_error s)
           | Inr s3 \<Rightarrow>
               let s4 = generateThreadRecommendationQuestions tid s3
               in Await response (threadEffect getIsFinished (thread s4) s4)))"

text \<open>
  The generate trigger settles with \<open>generated\<close>; on success the handler hides the
  recommended questions and fetches the created response.
\<close>

definition onSelect_generated :: "response \<Rightarrow> js_error + unit \<Rightarrow> hstate \<Rightarrow> unit awaited" where
  "onSelect_generated response generated s =
     (case generated of
        Inl e \<Rightarrow> Caught (console_error s)
      | Inr u \<Rightarrow>
          Await () (fetchThreadResponse (response_id response)
                      (setShowRecommendedQuestions False s)))"

text \<open>
  The first fetch settles, with the result \<open>fetched\<close> if it delivered one (which
  reaches the page like any other result); the handler then fetches the
  recommendations of \<open>thread.id\<close>.
\<close>

definition onSelect_fetched ::
  "(status option \<Rightarrow> bool) \<Rightarrow> int \<Rightarrow> response option \<Rightarrow> hstate \<Rightarrow> hstate" where
  "onSelect_fetched getIsFinished tid fetched s =
     fetchThreadRecommendationQuestions tid
       (case fetched of
          None \<Rightarrow> s
        | Some r \<Rightarrow> threadResponseArrived getIsFinished r s)"

text \<open>
  \<open>onSelect\<close> run from its first statement to its last with nothing else reaching
  the page in between: the stretches one after the other, each given the outcome
  of the call it awaited.
\<close>

definition onSelect ::
  "(status option \<Rightarrow> bool) \<Rightarrow> 'p \<Rightarrow> js_error + response \<Rightarrow> js_error + unit \<Rightarrow>
   response option \<Rightarrow> hstate \<Rightarrow> hstate" where
  "onSelect getIsFinished payload created generated fetched s =
     (case onSelect_start payload s of
        Caught s' \<Rightarrow> s'
      | Await tid s2 \<Rightarrow>
          (case onSelect_created getIsFinished tid created s2 of
             Caught s' \<Rightarrow> s'
           | Await response s5 \<Rightarrow>
               (case onSelect_generated response generated s5 of
                  Caught s' \<Rightarrow> s'
                | Await u s7 \<Rightarrow> onSelect_fetched getIsFinished tid fetched s7)))"

text \<open>
  The events of a session and the page's reaction to a sequence of them. A
  selection is either the whole handler at once (\<open>Select\<close>) or its stretches as
  separate events, between which other events may come; the later stretches carry
  the constants the handler holds.
\<close>

datatype 'p event =
    Navigate "int option"
  | ThreadLoaded thread
  | ThreadResponseArrived response
  | RecommendationArrived recommended_task
  | ResponsePollTick
  | RecommendationPollTick
  | Select 'p "js_error + response" "js_error + unit" "response option"
  | SelectStarted 'p
  | CreationSettled int "js_error + response"
  | GenerationSettled response "js_error + unit"
  | FirstFetchSettled int "response option"

fun step ::
  "(status option \<Rightarrow> bool) \<Rightarrow> (recommended_status option \<Rightarrow> bool) \<Rightarrow> 'p event \<Rightarrow> hstate \<Rightarrow> hstate" where
  "step gif irf (Navigate newId) s = navigate gif newId s"
| "step gif irf (ThreadLoaded t) s = threadLoaded gif t s"
| "step gif irf (ThreadResponseArrived r) s = threadResponseArrived gif r s"
| "step gif irf (RecommendationArrived task) s = recommendationArrived irf task s"
| "step gif irf ResponsePollTick s = responsePollTick s"
| "step gif irf RecommendationPollTick s = recommendationPollTick s"
| "step gif irf (Select payload created generated fetched) s =
     onSelect gif payload created generated fetched s"
| "step gif irf (SelectStarted payload) s = awaitedState (onSelect_start payload s)"
| "step gif irf (CreationSettled tid created) s =
     awaitedState (onSelect_created gif tid created s)"
| "step gif irf (GenerationSettled response generated) s =
     awaitedState (onSelect_generated response generated s)"
| "step gif irf (FirstFetchSettled tid fetched) s = onSelect_fetched gif tid fetched s"

fun run ::
  "(status option \<Rightarrow> bool) \<Rightarrow> (recommended_status option \<Rightarrow> bool) \<Rightarrow> 'p event list \<Rightarrow> hstate \<Rightarrow> hstate" where
  "run gif irf [] s = s"
| "run gif irf (e # es) s = run gif irf es (step gif irf e s)"

section \<open>Sample data\<close>

text \<open>Concrete responses, threads and tasks on which the theorems below are exercised.\<close>

definition detailSelect1 :: detail where
  "detailSelect1 =
     \<lparr>detail_sql = ''SELECT 1'', detail_description = ''one'',
      detail_steps = [], detail_view = None\<rparr>"

definition responsePending :: response where
  "responsePending =
     \<lparr>response_id = 7, response_question = ''a'', response_status = Pending,
      response_detail = None, response_error = None\<rparr>"

definition responseFinished :: response where
  "responseFinished =
     \<lparr>response_id = 7, response_question = ''a'', response_status = Finished,
      response_detail = Some detailSelect1, response_error = None\<rparr>"

definition responseDone :: response where
  "responseDone =
     \<lparr>response_id = 3, response_question = ''c'', response_status = Finished,
      response_detail = None, response_error = None\<rparr>"

definition responseGenerating :: response where
  "responseGenerating =
     \<lparr>response_id = 11, response_question = ''d'', response_status = Generating,
      response_detail = None, response_error = None\<rparr>"

definition threadEmpty :: thread where
  "threadEmpty = \<lparr>thread_id = 1, thread_sql = ''SELECT 0'', thread_responses = []\<rparr>"

definition threadA :: thread where
  "threadA = \<lparr>thread_id = 1, thread_sql = ''SELECT 0'', thread_responses = [responsePending]\<rparr>"

definition threadB :: thread where
  "threadB = \<lparr>thread_id = 2, thread_sql = ''SELECT 2'', thread_responses = [responseDone]\<rparr>"

definition threadMixed :: thread where
  "threadMixed =
     \<lparr>thread_id = 5, thread_sql = ''SELECT 5'',
      thread_responses = [responseDone, responsePending, responseGenerating]\<rparr>"

definition taskFinished :: recommended_task where
  "taskFinished = \<lparr>task_status = RFinished, task_questions = [], task_error = None\<rparr>"

definition taskGenerating :: recommended_task where
  "taskGenerating = \<lparr>task_status = RGenerating, task_questions = [], task_error = None\<rparr>"

text \<open>A string-to-number conversion that knows three strings.\<close>

definition sampleStringToNumber :: "string \<Rightarrow> js_number" where
  "sampleStringToNumber str =
     (if str = ''12'' then Num 12 else if str = ''0'' then Num 0 else NaN)"

text \<open>
  A session: the page opens on conversation 1, which loads with the pending
  response 7, whose fetch is issued; the user then switches to conversation 2
  (\<open>beforeLoad\<close>), which loads with its one finished response 3 (\<open>afterSwitch\<close>).
\<close>

definition switchSession :: "unit event list" where
  "switchSession = [ThreadLoaded threadA, Navigate (Some 2)]"

definition beforeLoad :: hstate where
  "beforeLoad =
     run specGetIsFinished specIsRecommendedFinished switchSession
       (mount specGetIsFinished specIsRecommendedFinished (Some 1))"

definition afterSwitch :: hstate where
  "afterSwitch = threadLoaded specGetIsFinished threadB beforeLoad"

section \<open>Facts about the updaters\<close>

lemma mergeResponse_length:
  "length (thread_responses (mergeResponse u t)) = length (thread_responses t)"
  by (simp add: mergeResponse_def)

lemma mergeResponse_nth:
  assumes "i < length (thread_responses t)"
  shows "thread_responses (mergeResponse u t) ! i =
           (if response_id (thread_responses t ! i) = response_id u then u
            else thread_responses t ! i)"
  using assms by (simp add: mergeResponse_def)

lemma mergeResponse_ids:
  "map response_id (thread_responses (mergeResponse u t)) = map response_id (thread_responses t)"
  by (simp add: mergeResponse_def)

lemma mergeResponse_absent:
  assumes "\<forall>r \<in> set (thread_responses t). response_id r \<noteq> response_id u"
  shows "mergeResponse u t = t"
proof -
  have "map (\<lambda>response. if response_id response = response_id u then u else response)
          (thread_responses t) = thread_responses t"
    using assms by (intro map_idI) simp
  then show ?thesis by (simp add: mergeResponse_def)
qed

lemma applyOps_length:
  "length (thread_responses (applyOps ops t)) =
     length (thread_responses t) + successfulCreates ops"
proof (induction ops arbitrary: t)
  case Nil
  show ?case by simp
next
  case (Cons x xs)
  show ?case
  proof (cases x)
    case (CreateOk r)
    then show ?thesis using Cons [of "appendResponse r t"]
      by (simp add: appendResponse_def)
  next
    case CreateFailed
    then show ?thesis using Cons [of t] by simp
  next
    case (Merge r)
    then show ?thesis using Cons [of "mergeResponse r t"]
      by (simp add: mergeResponse_length)
  qed
qed

lemmas sample_defs =
  detailSelect1_def responsePending_def responseFinished_def
  responseDone_def responseGenerating_def threadEmpty_def threadA_def threadB_def
  threadMixed_def taskFinished_def taskGenerating_def

section \<open>Merging a polled update\<close>

text \<open>
  C2. Merging a polled update into the responses of a conversation replaces exactly
  the entries whose id is the update's id: the sequence keeps its length, the ids
  stay in the same order, every position holds the update if the old entry had the
  update's id and the old entry otherwise, and the other fields of the thread are
  untouched.
\<close>

theorem merge_replaces_matching_id_only:
  "length (thread_responses (mergeResponse u t)) = length (thread_responses t) \<and>
   map response_id (thread_responses (mergeResponse u t)) =
     map response_id (thread_responses t) \<and>
   (\<forall>i < length (thread_responses t).
      thread_responses (mergeResponse u t) ! i =
        (if response_id (thread_responses t ! i) = response_id u then u
         else thread_responses t ! i)) \<and>
   thread_id (mergeResponse u t) = thread_id t \<and>
   thread_sql (mergeResponse u t) = thread_sql t"
  by (simp add: mergeResponse_def)

theorem merge_replaces_matching_id_only_witness:
  "length (thread_responses (mergeResponse responseFinished threadMixed)) = 3 \<and>
   thread_responses (mergeResponse responseFinished threadMixed) ! 0 = responseDone \<and>
   thread_responses (mergeResponse responseFinished threadMixed) ! 1 = responseFinished \<and>
   thread_responses (mergeResponse responseFinished threadMixed) ! 2 = responseGenerating"
proof -
  have len: "length (thread_responses threadMixed) = 3"
    by (simp add: threadMixed_def)
  have nth: "\<forall>i < 3. thread_responses (mergeResponse responseFinished threadMixed) ! i =
        (if response_id (thread_responses threadMixed ! i) = response_id responseFinished
         then responseFinished else thread_responses threadMixed ! i)"
    and len': "length (thread_responses (mergeResponse responseFinished threadMixed)) = 3"
    using merge_replaces_matching_id_only [of responseFinished threadMixed] len by simp_all
  have "thread_responses (mergeResponse responseFinished threadMixed) ! 0 = responseDone"
    and "thread_responses (mergeResponse responseFinished threadMixed) ! 1 = responseFinished"
    and "thread_responses (mergeResponse responseFinished threadMixed) ! 2 = responseGenerating"
    using nth by (simp_all add: sample_defs)
  then show ?thesis using len' by simp
qed

text \<open>
  C9. An update whose id no entry of the conversation has is merged to no effect:
  the thread is returned as it was, so no entry changes and the update is not
  appended; the cache the handler writes back is the cache it read.
\<close>

theorem merge_unknown_id_is_noop:
  assumes "\<forall>r \<in> set (thread_responses t). response_id r \<noteq> response_id u"
  shows "mergeResponse u t = t \<and>
         (thread s = Some t \<longrightarrow> threadResponse_onCompleted u s = Inr s)"
  using mergeResponse_absent [OF assms]
  by (simp add: threadResponse_onCompleted_def updateThreadQuery_def)

theorem merge_unknown_id_is_noop_witness:
  "mergeResponse responseGenerating threadA = threadA \<and>
   threadResponse_onCompleted responseGenerating
     ((initialState (Some 1))\<lparr>thread := Some threadA\<rparr>) =
     Inr ((initialState (Some 1))\<lparr>thread := Some threadA\<rparr>)"
proof -
  have "\<forall>r \<in> set (thread_responses threadA). response_id r \<noteq> response_id responseGenerating"
    by (simp add: sample_defs)
  from merge_unknown_id_is_noop [OF this, of "(initialState (Some 1))\<lparr>thread := Some threadA\<rparr>"]
  show ?thesis by simp
qed

section \<open>Length of the responses sequence\<close>

text \<open>
  C3. Along any history of a conversation's operations, the responses sequence grows
  by one for each successful creation and by nothing else: a successful creation
  puts the new entry at the end, a failed creation and a merge leave the length as
  it is. A conversation that started without responses therefore has as many
  entries as creations succeeded.
\<close>

theorem responses_length_counts_creations:
  "(thread_responses t = [] \<longrightarrow>
      length (thread_responses (applyOps ops t)) = successfulCreates ops) \<and>
   length (thread_responses (applyOps ops t)) =
     length (thread_responses t) + successfulCreates ops \<and>
   thread_responses (applyOp (CreateOk r) t) = thread_responses t @ [r] \<and>
   applyOp CreateFailed t = t \<and>
   length (thread_responses (applyOp (Merge r) t)) = length (thread_responses t)"
  by (simp add: applyOps_length appendResponse_def mergeResponse_length)

theorem responses_length_counts_creations_witness:
  "thread_responses threadEmpty = [] \<and>
   successfulCreates
     [CreateOk responsePending, Merge responseFinished, CreateFailed,
      CreateOk responseGenerating, Merge responseDone] = 2 \<and>
   length (thread_responses (applyOps
     [CreateOk responsePending, Merge responseFinished, CreateFailed,
      CreateOk responseGenerating, Merge responseDone] threadEmpty)) = 2"
proof -
  have e: "thread_responses threadEmpty = []"
    by (simp add: threadEmpty_def)
  from responses_length_counts_creations
         [of threadEmpty "[CreateOk responsePending, Merge responseFinished, CreateFailed,
            CreateOk responseGenerating, Merge responseDone]"] e
  show ?thesis by simp
qed

section \<open>Facts about the hooks and the effects\<close>

lemmas hook_defs =
  called_def askPrompt_onStopPolling_def threadResponseResult_stopPolling_def
  threadRecommendationQuestionsResult_stopPolling_def prompt_close_def
  fetchThreadResponse_def fetchThreadRecommendationQuestions_def
  generateThreadRecommendationQuestions_def setShowRecommendedQuestions_def
  onStoreThreadQuestions_def console_error_def

lemma threadEffect_None: "threadEffect gif None s = s"
  by (simp add: threadEffect_def unfinishedResponse_def)

lemma threadEffect_frame:
  "thread (threadEffect gif thr s) = thread s"
  "threadId (threadEffect gif thr s) = threadId s"
  "recommendedQuestions (threadEffect gif thr s) = recommendedQuestions s"
  "recommendationPolling (threadEffect gif thr s) = recommendationPolling s"
  "askPolling (threadEffect gif thr s) = askPolling s"
  by (simp_all add: threadEffect_def hook_defs Let_def split: option.splits)

lemma threadIdEffect_fields:
  "askPolling (threadIdEffect tid s) = False"
  "responsePolling (threadIdEffect tid s) = None"
  "recommendationPolling (threadIdEffect tid s) = tid"
  "thread (threadIdEffect tid s) = thread s"
  "threadId (threadIdEffect tid s) = threadId s"
  "threadResponse (threadIdEffect tid s) = threadResponse s"
  "calls (threadIdEffect tid s) =
     calls s @ [AskStopPolling, ThreadResponseStopPolling, RecommendationStopPolling, PromptClose]
       @ (case tid of None \<Rightarrow> [] | Some i \<Rightarrow> [FetchThreadRecommendationQuestions i])"
  by (simp_all add: threadIdEffect_def hook_defs Let_def split: option.splits)

lemma isFinishedEffect_frame:
  "thread (isFinishedEffect b s) = thread s"
  "threadId (isFinishedEffect b s) = threadId s"
  "threadResponse (isFinishedEffect b s) = threadResponse s"
  by (simp_all add: isFinishedEffect_def hook_defs)


lemma recommendationPollTicks_stopped:
  "recommendationPolling s = None \<Longrightarrow> (recommendationPollTick ^^ n) s = s"
  by (induction n) (simp_all add: recommendationPollTick_def)

lemma find_first_split:
  assumes "find P xs = Some x"
  shows "\<exists>pre post. xs = pre @ x # post \<and> (\<forall>y \<in> set pre. \<not> P y) \<and> P x"
  using assms
proof (induction xs)
  case Nil
  then show ?case by simp
next
  case (Cons a xs)
  show ?case
  proof (cases "P a")
    case True
    with Cons.prems have "a = x" by simp
    with True have "a # xs = [] @ x # xs \<and> (\<forall>y \<in> set []. \<not> P y) \<and> P x" by simp
    then show ?thesis by blast
  next
    case False
    with Cons.prems have "find P xs = Some x" by simp
    from Cons.IH [OF this] obtain pre post
      where "xs = pre @ x # post" "\<forall>y \<in> set pre. \<not> P y" "P x" by blast
    with False have "a # xs = (a # pre) @ x # post \<and> (\<forall>y \<in> set (a # pre). \<not> P y) \<and> P x"
      by simp
    then show ?thesis by blast
  qed
qed

lemma find_none_all: "find P xs = None \<Longrightarrow> \<forall>y \<in> set xs. \<not> P y"
  by (induction xs) (auto split: if_splits)

section \<open>The context switch\<close>

text \<open>
  C5. When the active conversation identity changes, the page stops the asking-task
  poller, the response poller and the recommendation poller and closes the prompt,
  in this order; if the new identity is not null it then fetches the
  recommendations of the new conversation, which starts that poller for the new
  scope. The generate trigger is not called.
\<close>

theorem context_switch_stops_pollers:
  assumes "newId \<noteq> threadId s"
  shows "threadId (navigate gif newId s) = newId \<and>
         askPolling (navigate gif newId s) = False \<and>
         responsePolling (navigate gif newId s) = None \<and>
         recommendationPolling (navigate gif newId s) = newId \<and>
         calls (navigate gif newId s) =
           calls s @ [AskStopPolling, ThreadResponseStopPolling, RecommendationStopPolling,
                      PromptClose]
             @ (case newId of None \<Rightarrow> [] | Some i \<Rightarrow> [FetchThreadRecommendationQuestions i])"
  using assms
  by (simp add: navigate_def Let_def threadIdEffect_fields threadEffect_None)

theorem context_switch_stops_pollers_witness:
  "Some 2 \<noteq> threadId ((initialState (Some 1))\<lparr>askPolling := True, responsePolling := Some 7,
       recommendationPolling := Some 1\<rparr>) \<and>
   askPolling (navigate specGetIsFinished (Some 2)
     ((initialState (Some 1))\<lparr>askPolling := True, responsePolling := Some 7,
       recommendationPolling := Some 1\<rparr>)) = False \<and>
   responsePolling (navigate specGetIsFinished (Some 2)
     ((initialState (Some 1))\<lparr>askPolling := True, responsePolling := Some 7,
       recommendationPolling := Some 1\<rparr>)) = None \<and>
   recommendationPolling (navigate specGetIsFinished (Some 2)
     ((initialState (Some 1))\<lparr>askPolling := True, responsePolling := Some 7,
       recommendationPolling := Some 1\<rparr>)) = Some 2 \<and>
   calls (navigate specGetIsFinished (Some 2)
     ((initialState (Some 1))\<lparr>askPolling := True, responsePolling := Some 7,
       recommendationPolling := Some 1\<rparr>)) =
     [AskStopPolling, ThreadResponseStopPolling, RecommendationStopPolling, PromptClose,
      FetchThreadRecommendationQuestions 2]"
proof -
  have d: "Some 2 \<noteq> threadId ((initialState (Some 1))\<lparr>askPolling := True,
      responsePolling := Some 7, recommendationPolling := Some 1\<rparr>)"
    by (simp add: initialState_def)
  from context_switch_stops_pollers [OF d, of specGetIsFinished] d
  show ?thesis by (simp add: initialState_def)
qed

section \<open>The convergence effect\<close>

text \<open>
  C4. Whenever the thread changes, the effect on \<open>thread\<close> looks for the first entry
  of the responses whose status is not finished (every entry before it is
  finished). If there is one, it issues one fetch of that response and the single
  poll timer of the thread-response query now runs for that id; if there is none,
  it issues no fetch and leaves the timer as it was. The timer holds at most one
  response id, so at most one entry is polled at a time.
\<close>

theorem convergence_polls_first_unfinished:
  "(case unfinishedResponse gif (Some t) of
      Some u \<Rightarrow>
        (\<exists>pre post. thread_responses t = pre @ u # post \<and>
            (\<forall>r \<in> set pre. gif (Some (response_status r))) \<and>
            \<not> gif (Some (response_status u))) \<and>
        responsePolling (threadEffect gif (Some t) s) = Some (response_id u) \<and>
        calls (threadEffect gif (Some t) s) =
          calls s @ [FetchThreadResponse (response_id u),
                     StoreThreadQuestions
                       (filter (\<lambda>q. q \<noteq> []) (map response_question (thread_responses t)))]
    | None \<Rightarrow>
        (\<forall>r \<in> set (thread_responses t). gif (Some (response_status r))) \<and>
        responsePolling (threadEffect gif (Some t) s) = responsePolling s \<and>
        calls (threadEffect gif (Some t) s) =
          calls s @ [StoreThreadQuestions
                       (filter (\<lambda>q. q \<noteq> []) (map response_question (thread_responses t)))])"
proof (cases "unfinishedResponse gif (Some t)")
  case None
  then have "\<forall>r \<in> set (thread_responses t). \<not> \<not> gif (Some (response_status r))"
    unfolding unfinishedResponse_def by (intro find_none_all) simp
  with None show ?thesis
    by (simp add: threadEffect_def hook_defs)
next
  case (Some u)
  then have "find (\<lambda>response. \<not> gif (Some (response_status response))) (thread_responses t) = Some u"
    by (simp add: unfinishedResponse_def)
  from find_first_split [OF this] obtain pre post where
    "thread_responses t = pre @ u # post"
    "\<forall>r \<in> set pre. \<not> \<not> gif (Some (response_status r))"
    "\<not> gif (Some (response_status u))" by blast
  then have "\<exists>pre post. thread_responses t = pre @ u # post \<and>
            (\<forall>r \<in> set pre. gif (Some (response_status r))) \<and>
            \<not> gif (Some (response_status u))" by auto
  with Some show ?thesis
    by (simp add: threadEffect_def hook_defs)
qed

theorem convergence_polls_first_unfinished_witness:
  "unfinishedResponse specGetIsFinished (Some threadMixed) = Some responsePending \<and>
   responsePolling (threadEffect specGetIsFinished (Some threadMixed) (initialState (Some 5))) =
     Some 7 \<and>
   calls (threadEffect specGetIsFinished (Some threadMixed) (initialState (Some 5))) =
     [FetchThreadResponse 7, StoreThreadQuestions [''c'', ''a'', ''d'']]"
proof -
  have u: "unfinishedResponse specGetIsFinished (Some threadMixed) = Some responsePending"
    by (simp add: unfinishedResponse_def specGetIsFinished_def sample_defs)
  from convergence_polls_first_unfinished
         [where gif = specGetIsFinished and t = threadMixed and s = "initialState (Some 5)"] u
  show ?thesis by (simp add: initialState_def sample_defs)
qed

section \<open>The recommendation poller\<close>

text \<open>
  C7. When a result of the recommendation query arrives, the effect on
  \<open>recommendedQuestions\<close> stops the recommendation poller if and only if the
  task's status is finished or failed. Once stopped, the timer issues no further
  fetch, however often it would have fired; on any other status the arrival
  changes nothing but the displayed task, and a running timer keeps fetching.
\<close>

theorem recommendation_poller_stops_at_terminal_status:
  "recommendationPolling (recommendationArrived specIsRecommendedFinished task s) =
     (if task_status task = RFinished \<or> task_status task = RFailed then None
      else recommendationPolling s) \<and>
   (task_status task = RFinished \<or> task_status task = RFailed \<longrightarrow>
      calls (recommendationArrived specIsRecommendedFinished task s) =
        calls s @ [RecommendationStopPolling] \<and>
      (\<forall>n. (recommendationPollTick ^^ n)
              (recommendationArrived specIsRecommendedFinished task s) =
            recommendationArrived specIsRecommendedFinished task s)) \<and>
   (task_status task \<noteq> RFinished \<and> task_status task \<noteq> RFailed \<longrightarrow>
      recommendationArrived specIsRecommendedFinished task s =
        s\<lparr>recommendedQuestions := Some task\<rparr> \<and>
      (\<forall>i. recommendationPolling s = Some i \<longrightarrow>
         calls (recommendationPollTick
                  (recommendationArrived specIsRecommendedFinished task s)) =
           calls s @ [PollThreadRecommendationQuestions i]))"
proof -
  let ?s' = "recommendationArrived specIsRecommendedFinished task s"
  have pol: "recommendationPolling ?s' =
     (if task_status task = RFinished \<or> task_status task = RFailed then None
      else recommendationPolling s)"
    by (simp add: recommendationArrived_def recommendedQuestionsEffect_def
        specIsRecommendedFinished_def hook_defs)
  have fin: "calls ?s' = calls s @ [RecommendationStopPolling] \<and>
      (\<forall>n. (recommendationPollTick ^^ n) ?s' = ?s')"
    if "task_status task = RFinished \<or> task_status task = RFailed"
  proof -
    from that pol have "recommendationPolling ?s' = None" by simp
    then have "\<forall>n. (recommendationPollTick ^^ n) ?s' = ?s'"
      by (simp add: recommendationPollTicks_stopped)
    moreover from that have "calls ?s' = calls s @ [RecommendationStopPolling]"
      by (simp add: recommendationArrived_def recommendedQuestionsEffect_def
          specIsRecommendedFinished_def hook_defs)
    ultimately show ?thesis by simp
  qed
  have run: "?s' = s\<lparr>recommendedQuestions := Some task\<rparr> \<and>
      (\<forall>i. recommendationPolling s = Some i \<longrightarrow>
         calls (recommendationPollTick ?s') = calls s @ [PollThreadRecommendationQuestions i])"
    if "task_status task \<noteq> RFinished \<and> task_status task \<noteq> RFailed"
  proof -
    from that have eq: "?s' = s\<lparr>recommendedQuestions := Some task\<rparr>"
      by (simp add: recommendationArrived_def recommendedQuestionsEffect_def
          specIsRecommendedFinished_def)
    show ?thesis unfolding eq
      by (simp add: recommendationPollTick_def called_def)
  qed
  from pol fin run show ?thesis by blast
qed

theorem recommendation_poller_stops_at_terminal_status_witness:
  "recommendationPolling (recommendationArrived specIsRecommendedFinished taskFinished
     ((initialState (Some 1))\<lparr>recommendationPolling := Some 1\<rparr>)) = None \<and>
   (recommendationPollTick ^^ 3) (recommendationArrived specIsRecommendedFinished taskFinished
     ((initialState (Some 1))\<lparr>recommendationPolling := Some 1\<rparr>)) =
     recommendationArrived specIsRecommendedFinished taskFinished
       ((initialState (Some 1))\<lparr>recommendationPolling := Some 1\<rparr>) \<and>
   calls (recommendationPollTick (recommendationArrived specIsRecommendedFinished taskGenerating
     ((initialState (Some 1))\<lparr>recommendationPolling := Some 1\<rparr>))) =
     [PollThreadRecommendationQuestions 1]"
proof -
  let ?s = "(initialState (Some 1))\<lparr>recommendationPolling := Some 1\<rparr>"
  have f: "task_status taskFinished = RFinished \<or> task_status taskFinished = RFailed"
    by (simp add: taskFinished_def)
  have g: "task_status taskGenerating \<noteq> RFinished \<and> task_status taskGenerating \<noteq> RFailed"
    by (simp add: taskGenerating_def)
  have p: "recommendationPolling ?s = Some 1" "calls ?s = []"
    by (simp_all add: initialState_def)
  from recommendation_poller_stops_at_terminal_status [of taskFinished ?s] f
  have a: "recommendationPolling (recommendationArrived specIsRecommendedFinished taskFinished ?s)
        = None"
    and b: "(recommendationPollTick ^^ 3)
        (recommendationArrived specIsRecommendedFinished taskFinished ?s) =
        recommendationArrived specIsRecommendedFinished taskFinished ?s"
    by simp_all
  from recommendation_poller_stops_at_terminal_status [of taskGenerating ?s] g
  have "\<forall>i. recommendationPolling ?s = Some i \<longrightarrow>
      calls (recommendationPollTick
        (recommendationArrived specIsRecommendedFinished taskGenerating ?s)) =
      calls ?s @ [PollThreadRecommendationQuestions i]"
    by blast
  with p have c: "calls (recommendationPollTick
      (recommendationArrived specIsRecommendedFinished taskGenerating ?s)) =
      [PollThreadRecommendationQuestions 1]"
    by simp
  from a b c show ?thesis by simp
qed

section \<open>A creation that fails\<close>

text \<open>
  C8. When the creation of a thread response fails (the mutation rejects, or there
  is no thread to read the id from), \<open>onSelect\<close> catches the error and logs it:
  nothing is appended to the responses, no fetch of a thread response is issued
  and the thread-response timer is as it was, the generate trigger is not called,
  and the recommendation poller, the fetched results and the active conversation
  are untouched. The only calls made are the stop of the asking-task poller, which
  precedes the creation, the creation itself and the log.
\<close>

theorem failed_creation_enters_no_polling:
  "thread (onSelect gif payload (Inl e) generated fetched s) = thread s \<and>
   responsePolling (onSelect gif payload (Inl e) generated fetched s) = responsePolling s \<and>
   recommendationPolling (onSelect gif payload (Inl e) generated fetched s) =
     recommendationPolling s \<and>
   threadResponse (onSelect gif payload (Inl e) generated fetched s) = threadResponse s \<and>
   recommendedQuestions (onSelect gif payload (Inl e) generated fetched s) =
     recommendedQuestions s \<and>
   threadId (onSelect gif payload (Inl e) generated fetched s) = threadId s \<and>
   showRecommendedQuestions (onSelect gif payload (Inl e) generated fetched s) =
     showRecommendedQuestions s \<and>
   calls (onSelect gif payload (Inl e) generated fetched s) =
     calls s @ (case thread s of
                  None \<Rightarrow> [AskStopPolling, ConsoleError]
                | Some t \<Rightarrow> [AskStopPolling, CreateThreadResponse (thread_id t), ConsoleError])"
  by (simp add: onSelect_def onSelect_start_def onSelect_created_def hook_defs Let_def
      split: option.splits)

theorem failed_creation_enters_no_polling_witness:
  "thread (onSelect specGetIsFinished () (Inl ApolloError) (Inr ()) None
     ((initialState (Some 1))\<lparr>thread := Some threadA, responsePolling := Some 7\<rparr>)) =
     Some threadA \<and>
   responsePolling (onSelect specGetIsFinished () (Inl ApolloError) (Inr ()) None
     ((initialState (Some 1))\<lparr>thread := Some threadA, responsePolling := Some 7\<rparr>)) =
     Some 7 \<and>
   calls (onSelect specGetIsFinished () (Inl ApolloError) (Inr ()) None
     ((initialState (Some 1))\<lparr>thread := Some threadA, responsePolling := Some 7\<rparr>)) =
     [AskStopPolling, CreateThreadResponse 1, ConsoleError]"
  using failed_creation_enters_no_polling
    [where gif = specGetIsFinished and payload = "()" and e = ApolloError
       and generated = "Inr ()" and fetched = None
       and s = "(initialState (Some 1))\<lparr>thread := Some threadA, responsePolling := Some 7\<rparr>"]
  by (simp add: initialState_def threadA_def)

section \<open>The identity derived from the route\<close>

text \<open>
  C10. The active conversation identity is \<open>Number(params?.id) || null\<close>: it is null
  when the route parameter is missing, when it is a string that converts to
  \<open>NaN\<close> (it is not numeric) and when it converts to zero, and it is the converted
  number otherwise. The thread query is skipped exactly in the null case, and a
  skipped query delivers no thread to the page.
\<close>

theorem null_identity_skips_thread_query:
  "threadIdOf s2n Undefined = None \<and>
   threadIdOf s2n (Str str) =
     (if s2n str = NaN \<or> s2n str = Num 0 then None else Some (s2n str)) \<and>
   threadQuerySkip (threadIdOf s2n p) =
     (p = Undefined \<or> (\<exists>x. p = Str x \<and> (s2n x = NaN \<or> s2n x = Num 0))) \<and>
   (threadQuerySkip (threadId s) \<longrightarrow>
      threadLoaded gif t s = s \<and> thread (threadLoaded gif t s) = thread s)"
  by (cases p) (simp_all add: threadIdOf_def orNull_def Number_js_def threadQuerySkip_def
      threadLoaded_def)

theorem null_identity_skips_thread_query_witness:
  "threadIdOf sampleStringToNumber Undefined = None \<and>
   threadIdOf sampleStringToNumber (Str ''abc'') = None \<and>
   threadIdOf sampleStringToNumber (Str ''0'') = None \<and>
   threadIdOf sampleStringToNumber (Str ''12'') = Some (Num 12) \<and>
   threadQuerySkip (threadIdOf sampleStringToNumber (Str ''abc'')) \<and>
   threadQuerySkip (threadId (initialState None)) \<and>
   threadLoaded specGetIsFinished threadA (initialState None) = initialState None"
proof -
  have k: "threadQuerySkip (threadId (initialState None))"
    by (simp add: threadQuerySkip_def initialState_def)
  have v: "sampleStringToNumber ''abc'' = NaN" "sampleStringToNumber ''0'' = Num 0"
    "sampleStringToNumber ''12'' = Num 12"
    by (simp_all add: sampleStringToNumber_def)
  note abc = null_identity_skips_thread_query
         [where ?s2n = sampleStringToNumber and str = "''abc''" and p = "Str ''abc''"
            and s = "initialState None" and gif = specGetIsFinished and t = threadA]
  from abc have a: "threadIdOf sampleStringToNumber Undefined = None"
    by blast
  from abc v have b: "threadIdOf sampleStringToNumber (Str ''abc'') = None"
    by simp
  from abc v have c: "threadQuerySkip (threadIdOf sampleStringToNumber (Str ''abc''))"
    by blast
  from abc k have d: "threadLoaded specGetIsFinished threadA (initialState None) =
      initialState None"
    by blast
  from null_identity_skips_thread_query
         [where ?s2n = sampleStringToNumber and str = "''0''" and p = "Str ''0''"
            and s = "initialState None" and gif = specGetIsFinished and t = threadA] v
  have e: "threadIdOf sampleStringToNumber (Str ''0'') = None"
    by simp
  from null_identity_skips_thread_query
         [where ?s2n = sampleStringToNumber and str = "''12''" and p = "Str ''12''"
            and s = "initialState None" and gif = specGetIsFinished and t = threadA] v
  have g: "threadIdOf sampleStringToNumber (Str ''12'') = Some (Num 12)"
    by simp
  from a b c d e g k show ?thesis by simp
qed

section \<open>A created response converges\<close>






section \<open>An update that arrives after a context switch\<close>

lemma threadResponseArrived_thread:
  "thread (threadResponseArrived gif u s) = map_option (mergeResponse u) (thread s)"
  by (cases "thread s")
     (simp_all add: threadResponseArrived_def threadResponse_onCompleted_def
        updateThreadQuery_def Let_def threadEffect_frame isFinishedEffect_frame)

lemma threadResponseArrived_unmatched:
  assumes "thread s = None \<or>
           (\<exists>t. thread s = Some t \<and>
                (\<forall>r \<in> set (thread_responses t). response_id r \<noteq> response_id u))"
  shows "threadResponseArrived gif u s =
           (if gif (Some (response_status u)) = isFinished gif s
            then s\<lparr>threadResponse := Some u\<rparr>
            else isFinishedEffect (gif (Some (response_status u)))
                   (s\<lparr>threadResponse := Some u\<rparr>))"
proof (cases "thread s")
  case None
  then show ?thesis
    by (simp add: threadResponseArrived_def threadResponse_onCompleted_def
        updateThreadQuery_def Let_def)
next
  case (Some t)
  with assms have "\<forall>r \<in> set (thread_responses t). response_id r \<noteq> response_id u"
    by simp
  then have same: "mergeResponse u t = t" by (rule mergeResponse_absent)
  with Some have "threadResponse_onCompleted u s = Inr s"
    by (simp add: threadResponse_onCompleted_def updateThreadQuery_def)
  then show ?thesis
    by (simp add: threadResponseArrived_def Let_def)
qed

lemma navigate_fields:
  assumes "newId \<noteq> threadId s"
  shows "responsePolling (navigate gif newId s) = None"
    and "thread (navigate gif newId s) = None"
    and "threadId (navigate gif newId s) = newId"
  using assms
  by (simp_all add: navigate_def Let_def threadIdEffect_fields threadEffect_None)

lemma threadLoaded_thread:
  "threadId s \<noteq> None \<Longrightarrow> thread (threadLoaded gif t s) = Some t"
  by (auto simp add: threadLoaded_def threadQuerySkip_def threadEffect_frame)

text \<open>
  C1, as the spec states it, fails. In the session \<open>switchSession\<close> the fetch of
  response 7 of conversation 1 is issued and the user switches to conversation 2,
  which stops the timer. The result of the fetch arrives after the switch, before
  conversation 2 has loaded (\<open>beforeLoad\<close>) or after (\<open>afterSwitch\<close>; its one
  response has id 3). In both cases the result is not discarded: nothing compares
  the conversation it was fetched for with the active one, the page takes it as
  its current thread response, finds it finished, and the effect on \<open>isFinished\<close>
  runs, calling \<open>stopPolling\<close> on the thread-response query of conversation 2.
\<close>

theorem stale_update_applied_counterexample:
  "threadId beforeLoad = Some 2 \<and>
   thread beforeLoad = None \<and>
   threadResponse beforeLoad = None \<and>
   calls beforeLoad =
     [AskStopPolling, ThreadResponseStopPolling, RecommendationStopPolling, PromptClose,
      FetchThreadRecommendationQuestions 1,
      FetchThreadResponse 7, StoreThreadQuestions [''a''],
      AskStopPolling, ThreadResponseStopPolling, RecommendationStopPolling, PromptClose,
      FetchThreadRecommendationQuestions 2] \<and>
   threadResponseArrived specGetIsFinished responseFinished beforeLoad =
     beforeLoad\<lparr>threadResponse := Some responseFinished,
                calls := calls beforeLoad @ [ThreadResponseStopPolling]\<rparr> \<and>
   threadResponseArrived specGetIsFinished responseFinished beforeLoad \<noteq> beforeLoad \<and>
   threadId afterSwitch = Some 2 \<and>
   thread afterSwitch = Some threadB \<and>
   threadResponse afterSwitch = None \<and>
   calls afterSwitch = calls beforeLoad @ [StoreThreadQuestions [''c'']] \<and>
   threadResponseArrived specGetIsFinished responseFinished afterSwitch =
     afterSwitch\<lparr>threadResponse := Some responseFinished,
                 calls := calls afterSwitch @ [ThreadResponseStopPolling]\<rparr> \<and>
   threadResponseArrived specGetIsFinished responseFinished afterSwitch \<noteq> afterSwitch"
proof -
  have b: "beforeLoad =
     \<lparr>threadId = Some 2, thread = None, threadResponse = None,
      recommendedQuestions = None, showRecommendedQuestions = True,
      askPolling = False, responsePolling = None, responseVariables = Some 7,
      recommendationPolling = Some 2, promptOpen = False, threadQuestions = [''a''],
      calls =
        [AskStopPolling, ThreadResponseStopPolling, RecommendationStopPolling, PromptClose,
         FetchThreadRecommendationQuestions 1,
         FetchThreadResponse 7, StoreThreadQuestions [''a''],
         AskStopPolling, ThreadResponseStopPolling, RecommendationStopPolling, PromptClose,
         FetchThreadRecommendationQuestions 2]\<rparr>"
    by (simp add: beforeLoad_def switchSession_def mount_def initialState_def
        navigate_def threadLoaded_def threadQuerySkip_def threadIdEffect_def
        threadEffect_def unfinishedResponse_def isFinishedEffect_def isFinished_def
        recommendedQuestionsEffect_def specGetIsFinished_def specIsRecommendedFinished_def
        hook_defs Let_def sample_defs)
  have a: "afterSwitch =
     beforeLoad\<lparr>thread := Some threadB, threadQuestions := [''c''],
                calls := calls beforeLoad @ [StoreThreadQuestions [''c'']]\<rparr>"
    unfolding afterSwitch_def b
    by (simp add: threadLoaded_def threadQuerySkip_def threadEffect_def
        unfinishedResponse_def specGetIsFinished_def hook_defs sample_defs)
  have late: "specGetIsFinished (Some (response_status responseFinished))"
    by (simp add: specGetIsFinished_def responseFinished_def)
  have nb: "\<not> isFinished specGetIsFinished beforeLoad"
    unfolding b by (simp add: isFinished_def specGetIsFinished_def)
  have na: "\<not> isFinished specGetIsFinished afterSwitch"
    unfolding a b by (simp add: isFinished_def specGetIsFinished_def)
  have "thread beforeLoad = None" unfolding b by simp
  then have "threadResponseArrived specGetIsFinished responseFinished beforeLoad =
      isFinishedEffect True (beforeLoad\<lparr>threadResponse := Some responseFinished\<rparr>)"
    using late nb by (simp add: threadResponseArrived_unmatched)
  then have rb: "threadResponseArrived specGetIsFinished responseFinished beforeLoad =
      beforeLoad\<lparr>threadResponse := Some responseFinished,
                 calls := calls beforeLoad @ [ThreadResponseStopPolling]\<rparr>"
    unfolding b by (simp add: isFinishedEffect_def hook_defs)
  have "thread afterSwitch = Some threadB \<and>
      (\<forall>r \<in> set (thread_responses threadB). response_id r \<noteq> response_id responseFinished)"
    unfolding a by (simp add: sample_defs)
  then have "threadResponseArrived specGetIsFinished responseFinished afterSwitch =
      isFinishedEffect True (afterSwitch\<lparr>threadResponse := Some responseFinished\<rparr>)"
    using late na by (simp add: threadResponseArrived_unmatched)
  then have ra: "threadResponseArrived specGetIsFinished responseFinished afterSwitch =
      afterSwitch\<lparr>threadResponse := Some responseFinished,
                  calls := calls afterSwitch @ [ThreadResponseStopPolling]\<rparr>"
    unfolding a b by (simp add: isFinishedEffect_def hook_defs)
  have db: "threadResponse (threadResponseArrived specGetIsFinished responseFinished beforeLoad)
      \<noteq> threadResponse beforeLoad"
    unfolding rb unfolding b by simp
  have da: "threadResponse (threadResponseArrived specGetIsFinished responseFinished afterSwitch)
      \<noteq> threadResponse afterSwitch"
    unfolding ra unfolding a b by simp
  from db have neb: "threadResponseArrived specGetIsFinished responseFinished beforeLoad \<noteq>
      beforeLoad" by auto
  from da have nea: "threadResponseArrived specGetIsFinished responseFinished afterSwitch \<noteq>
      afterSwitch" by auto
  have fb: "threadId beforeLoad = Some 2 \<and> thread beforeLoad = None \<and>
      threadResponse beforeLoad = None \<and>
      calls beforeLoad =
        [AskStopPolling, ThreadResponseStopPolling, RecommendationStopPolling, PromptClose,
         FetchThreadRecommendationQuestions 1,
         FetchThreadResponse 7, StoreThreadQuestions [''a''],
         AskStopPolling, ThreadResponseStopPolling, RecommendationStopPolling, PromptClose,
         FetchThreadRecommendationQuestions 2]"
    unfolding b by simp
  have fa: "threadId afterSwitch = Some 2 \<and> thread afterSwitch = Some threadB \<and>
      threadResponse afterSwitch = None \<and>
      calls afterSwitch = calls beforeLoad @ [StoreThreadQuestions [''c'']]"
    unfolding a unfolding b by simp
  from fb rb neb fa ra nea show ?thesis by blast
qed

text \<open>
  C1, amended. A context switch stops the thread-response timer. The result of a
  fetch that was under way at the switch is not re-validated against the active
  conversation and is not discarded when it arrives:
  \<^item> while the new conversation has not loaded, or when none of its entries has
    the update's id, the cached thread stays as it is, the page takes the late
    result as its current thread response, and the effect on \<open>isFinished\<close> runs
    if \<open>getIsFinished\<close> of the late status differs from the \<open>isFinished\<close> on
    display; nothing else changes;
  \<^item> in general, once the new conversation has loaded, the cached thread
    becomes the merge by response id of the late result into it, which keeps the
    length and every entry with another id;
  \<^item> the effect on \<open>isFinished\<close>, run on a finished result, stops the
    thread-response timer and shows the recommended questions; run on an
    unfinished one it does nothing.
\<close>

theorem stale_update_not_discarded:
  assumes "newId \<noteq> threadId s"
  shows "responsePolling (navigate gif newId s) = None \<and>
         threadResponseArrived gif u (navigate gif newId s) =
           (if gif (Some (response_status u)) = isFinished gif (navigate gif newId s)
            then (navigate gif newId s)\<lparr>threadResponse := Some u\<rparr>
            else isFinishedEffect (gif (Some (response_status u)))
                   ((navigate gif newId s)\<lparr>threadResponse := Some u\<rparr>)) \<and>
         (newId \<noteq> None \<and>
          (\<forall>r \<in> set (thread_responses tB). response_id r \<noteq> response_id u) \<longrightarrow>
            threadResponseArrived gif u (threadLoaded gif tB (navigate gif newId s)) =
              (if gif (Some (response_status u)) =
                    isFinished gif (threadLoaded gif tB (navigate gif newId s))
               then (threadLoaded gif tB (navigate gif newId s))\<lparr>threadResponse := Some u\<rparr>
               else isFinishedEffect (gif (Some (response_status u)))
                      ((threadLoaded gif tB (navigate gif newId s))
                         \<lparr>threadResponse := Some u\<rparr>))) \<and>
         (newId \<noteq> None \<longrightarrow>
            thread (threadResponseArrived gif u (threadLoaded gif tB (navigate gif newId s))) =
              Some (mergeResponse u tB) \<and>
            length (thread_responses (mergeResponse u tB)) = length (thread_responses tB) \<and>
            (\<forall>i < length (thread_responses tB).
               response_id (thread_responses tB ! i) \<noteq> response_id u \<longrightarrow>
               thread_responses (mergeResponse u tB) ! i = thread_responses tB ! i)) \<and>
         isFinishedEffect True x =
           x\<lparr>showRecommendedQuestions := True, responsePolling := None,
             calls := calls x @ [ThreadResponseStopPolling]\<rparr> \<and>
         isFinishedEffect False x = x"
proof -
  let ?n = "navigate gif newId s"
  let ?l = "threadLoaded gif tB ?n"
  note nav = navigate_fields [OF assms, of gif]
  have early: "threadResponseArrived gif u ?n =
      (if gif (Some (response_status u)) = isFinished gif ?n
       then ?n\<lparr>threadResponse := Some u\<rparr>
       else isFinishedEffect (gif (Some (response_status u))) (?n\<lparr>threadResponse := Some u\<rparr>))"
    using nav(2) by (intro threadResponseArrived_unmatched) simp
  have loaded: "thread ?l = Some tB" if "newId \<noteq> None"
    using that nav(3) by (simp add: threadLoaded_thread)
  have unmatched: "threadResponseArrived gif u ?l =
      (if gif (Some (response_status u)) = isFinished gif ?l
       then ?l\<lparr>threadResponse := Some u\<rparr>
       else isFinishedEffect (gif (Some (response_status u))) (?l\<lparr>threadResponse := Some u\<rparr>))"
    if "newId \<noteq> None \<and> (\<forall>r \<in> set (thread_responses tB). response_id r \<noteq> response_id u)"
    using that loaded by (intro threadResponseArrived_unmatched) simp
  have merged: "thread (threadResponseArrived gif u ?l) = Some (mergeResponse u tB)"
    if "newId \<noteq> None"
    using loaded [OF that] by (simp add: threadResponseArrived_thread)
  have frame: "\<forall>i < length (thread_responses tB).
      response_id (thread_responses tB ! i) \<noteq> response_id u \<longrightarrow>
      thread_responses (mergeResponse u tB) ! i = thread_responses tB ! i"
    by (simp add: mergeResponse_nth)
  have eff: "isFinishedEffect True x =
      x\<lparr>showRecommendedQuestions := True, responsePolling := None,
        calls := calls x @ [ThreadResponseStopPolling]\<rparr>"
    "isFinishedEffect False x = x"
    by (simp_all add: isFinishedEffect_def hook_defs)
  from nav(1) early unmatched merged frame eff mergeResponse_length [of u tB]
  show ?thesis by blast
qed

theorem stale_update_not_discarded_witness:
  "Some 2 \<noteq> threadId ((initialState (Some 1))\<lparr>thread := Some threadA,
       responsePolling := Some 7, responseVariables := Some 7\<rparr>) \<and>
   responsePolling (navigate specGetIsFinished (Some 2)
      ((initialState (Some 1))\<lparr>thread := Some threadA, responsePolling := Some 7,
         responseVariables := Some 7\<rparr>)) = None \<and>
   threadResponse (threadResponseArrived specGetIsFinished responseFinished
      (threadLoaded specGetIsFinished threadB (navigate specGetIsFinished (Some 2)
         ((initialState (Some 1))\<lparr>thread := Some threadA, responsePolling := Some 7,
            responseVariables := Some 7\<rparr>)))) = Some responseFinished \<and>
   thread (threadResponseArrived specGetIsFinished responseFinished
      (threadLoaded specGetIsFinished threadB (navigate specGetIsFinished (Some 2)
         ((initialState (Some 1))\<lparr>thread := Some threadA, responsePolling := Some 7,
            responseVariables := Some 7\<rparr>)))) = Some threadB"
proof -
  let ?s = "(initialState (Some 1))\<lparr>thread := Some threadA, responsePolling := Some 7,
      responseVariables := Some 7\<rparr>"
  let ?l = "threadLoaded specGetIsFinished threadB (navigate specGetIsFinished (Some 2) ?s)"
  have d: "Some 2 \<noteq> threadId ?s"
    by (simp add: initialState_def)
  have a: "Some (2::int) \<noteq> None \<and>
      (\<forall>r \<in> set (thread_responses threadB). response_id r \<noteq> response_id responseFinished)"
    by (simp add: sample_defs)
  note c = stale_update_not_discarded
      [where gif = specGetIsFinished and newId = "Some 2" and s = ?s
         and u = responseFinished and tB = threadB and x = ?l, OF d]
  from c have p: "responsePolling (navigate specGetIsFinished (Some 2) ?s) = None"
    by blast
  from c a have e: "threadResponseArrived specGetIsFinished responseFinished ?l =
      (if specGetIsFinished (Some (response_status responseFinished)) =
            isFinished specGetIsFinished ?l
       then ?l\<lparr>threadResponse := Some responseFinished\<rparr>
       else isFinishedEffect (specGetIsFinished (Some (response_status responseFinished)))
              (?l\<lparr>threadResponse := Some responseFinished\<rparr>))"
    by blast
  have tl: "thread ?l = Some threadB"
    using d by (intro threadLoaded_thread) (simp add: navigate_fields)
  from e have r: "threadResponse (threadResponseArrived specGetIsFinished responseFinished ?l) =
      Some responseFinished"
    by (simp add: isFinishedEffect_frame split: if_splits)
  from e tl have t: "thread (threadResponseArrived specGetIsFinished responseFinished ?l) =
      Some threadB"
    by (simp add: isFinishedEffect_frame split: if_splits)
  from d p r t show ?thesis by simp
qed

end
